theory Spec2Isabelle
  imports Complex_Main
begin

section \<open>Python values and exceptions\<close>

text \<open>
  The exceptions the Python layer raises itself, and \<open>NativeError\<close> for whatever the
  compiled extension raises (it is passed through unchanged).
\<close>

datatype error = ValueError | IndexError | TypeError | AttributeError | NativeError string

text \<open>
  The scalar Python objects that reach the functions below. A string is a scalar for
  numpy: \<open>np.isscalar('10')\<close> is true and \<open>np.array('10', dtype=object, ndmin=1)\<close> has
  shape \<open>(1,)\<close>.
\<close>

datatype pyval = PyInt int | PyBool bool | PyFloat rat | PyStr string | PyNone

section \<open>odl/util/normalize.py: \<open>normalized_index_expression\<close>\<close>

text \<open>
  One entry of an index expression: an integer, \<open>slice(start, stop, step)\<close> with each part
  an integer or \<open>None\<close>, \<open>Ellipsis\<close>, or \<open>None\<close> (numpy's new axis).
\<close>

datatype index = Integer int | Slice "int option" "int option" "int option" | Ellipsis | NewAxis

text \<open>The argument \<open>indices\<close>: one such object, or a sequence of them.\<close>

datatype index_arg = Single index | Seq "index list"

abbreviation slice_None :: index where
  "slice_None \<equiv> Slice None None None"

fun is_Integer :: "index \<Rightarrow> bool" where
  "is_Integer (Integer i) = True"
| "is_Integer x = False"

fun is_Slice :: "index \<Rightarrow> bool" where
  "is_Slice (Slice a b c) = True"
| "is_Slice x = False"

text \<open>
  Lines 219-224: a scalar becomes \<open>[indices, Ellipsis]\<close>, a slice or \<open>Ellipsis\<close> becomes
  \<open>[indices]\<close>, anything else goes through \<open>list(indices)\<close>, which raises TypeError on
  \<open>None\<close>.
\<close>

fun to_list :: "index_arg \<Rightarrow> error + index list" where
  "to_list (Single (Integer i)) = Inr [Integer i, Ellipsis]"
| "to_list (Single (Slice a b c)) = Inr [Slice a b c]"
| "to_list (Single Ellipsis) = Inr [Ellipsis]"
| "to_list (Single NewAxis) = Inl TypeError"
| "to_list (Seq xs) = Inr xs"

text \<open>Lines 225-226: fewer indices than axes and no \<open>Ellipsis\<close>: append one.\<close>

definition append_ellipsis :: "nat \<Rightarrow> index list \<Rightarrow> index list" where
  "append_ellipsis ndim xs =
     (if length xs < ndim \<and> Ellipsis \<notin> set xs then xs @ [Ellipsis] else xs)"

text \<open>\<open>list.index\<close>, called only on a list that holds the element.\<close>

fun list_index :: "'a list \<Rightarrow> 'a \<Rightarrow> nat" where
  "list_index [] a = 0"
| "list_index (x # xs) a = (if x = a then 0 else Suc (list_index xs a))"

text \<open>
  Lines 229-236. \<open>extra_dims\<close> may be negative; Python's \<open>[slice(None)] * k\<close> is empty
  for \<open>k \<le> 0\<close>, which \<open>nat\<close> reproduces.
\<close>

definition expand_ellipsis :: "nat \<Rightarrow> index list \<Rightarrow> error + index list" where
  "expand_ellipsis ndim xs =
     (if Ellipsis \<in> set xs then
        if count_list xs Ellipsis > 1 then Inl ValueError
        else
          let eidx = list_index xs Ellipsis;
              extra_dims = int ndim - int (length xs) + 1
          in Inr (take eidx xs @ replicate (nat extra_dims) slice_None @ drop (eidx + 1) xs)
      else Inr xs)"

text \<open>
  Lines 239-249, the loop over \<open>zip(enumerate(indices), shape)\<close>: it stops with the
  shorter of the two. \<open>idx += n\<close> changes the loop variable only; the list entry is
  replaced only when \<open>int_to_slice\<close> is set.
\<close>

fun check_ints :: "bool \<Rightarrow> index list \<Rightarrow> int list \<Rightarrow> error + index list" where
  "check_ints int_to_slice [] shape = Inr []"
| "check_ints int_to_slice (x # xs) [] = Inr (x # xs)"
| "check_ints int_to_slice (Integer i # xs) (n # shape) =
     (let idx = (if i < 0 then i + n else i)
      in if idx \<ge> n then Inl IndexError
         else case check_ints int_to_slice xs shape of
                Inl e \<Rightarrow> Inl e
              | Inr r \<Rightarrow>
                  Inr ((if int_to_slice then Slice (Some idx) (Some (idx + 1)) None else Integer i) # r))"
| "check_ints int_to_slice (x # xs) (n # shape) =
     (case check_ints int_to_slice xs shape of
        Inl e \<Rightarrow> Inl e
      | Inr r \<Rightarrow> Inr (x # r))"

text \<open>
  Lines 252-254, the condition of \<open>any(...)\<close>:
  \<open>s.start == s.stop and s.start is not None or s.start == n\<close>, over the slices of
  \<open>zip(indices, shape)\<close>.
\<close>

fun empty_axis :: "index \<Rightarrow> int \<Rightarrow> bool" where
  "empty_axis (Slice start stop step) n = ((start = stop \<and> start \<noteq> None) \<or> start = Some n)"
| "empty_axis x n = False"

fun any_empty_axis :: "index list \<Rightarrow> int list \<Rightarrow> bool" where
  "any_empty_axis (x # xs) (n # shape) = (empty_axis x n \<or> any_empty_axis xs shape)"
| "any_empty_axis xs shape = False"

text \<open>Lines 251-262.\<close>

definition final_checks :: "index list \<Rightarrow> int list \<Rightarrow> error + index list" where
  "final_checks xs shape =
     (if any_empty_axis xs shape then Inl ValueError
      else if NewAxis \<in> set xs then Inl ValueError
      else if length xs > length shape then Inl IndexError
      else Inr xs)"

definition normalized_index_expression ::
    "index_arg \<Rightarrow> int list \<Rightarrow> bool \<Rightarrow> error + index list" where
  "normalized_index_expression indices shape int_to_slice =
     (let ndim = length shape in
      case to_list indices of
        Inl e \<Rightarrow> Inl e
      | Inr xs \<Rightarrow>
         (case expand_ellipsis ndim (append_ellipsis ndim xs) of
            Inl e \<Rightarrow> Inl e
          | Inr ys \<Rightarrow>
             (case check_ints int_to_slice ys shape of
                Inl e \<Rightarrow> Inl e
              | Inr zs \<Rightarrow> final_checks zs shape)))"

section \<open>odl/util/normalize.py: \<open>normalized_scalar_param_list\<close>\<close>

text \<open>
  The argument \<open>param\<close>: a scalar object, or a tuple or list of scalar objects (the
  docstring excludes parameters that are themselves iterable).
\<close>

datatype param = Scalar pyval | Sequence "pyval list"

text \<open>
  \<open>np.array(param, dtype=object, copy=True, ndmin=1)\<close>: a scalar gives an array of
  shape \<open>(1,)\<close>, a sequence of \<open>k\<close> scalars one of shape \<open>(k,)\<close>.
\<close>

fun np_array_ndmin1 :: "param \<Rightarrow> pyval list" where
  "np_array_ndmin1 (Scalar v) = [v]"
| "np_array_ndmin1 (Sequence vs) = vs"

text \<open>
  \<open>np.broadcast_to(a, (length,))\<close> on a one-dimensional array: the array itself when
  the lengths agree, its single entry repeated when it has one, ValueError otherwise.
\<close>

definition np_broadcast_to :: "pyval list \<Rightarrow> nat \<Rightarrow> error + pyval list" where
  "np_broadcast_to a n =
     (if length a = n then Inr a
      else if length a = 1 then Inr (replicate n (hd a))
      else Inl ValueError)"

text \<open>\<open>np.isscalar\<close>: true of numbers and strings, false of \<open>None\<close> and of sequences.\<close>

fun np_isscalar :: "param \<Rightarrow> bool" where
  "np_isscalar (Scalar v) = (v \<noteq> PyNone)"
| "np_isscalar (Sequence vs) = False"

text \<open>
  Lines 120-136, the branch taken when numpy has no \<open>broadcast_to\<close> (the
  \<open>AttributeError\<close> handler). \<open>len(param)\<close> raises TypeError on an object that is not
  a sequence; that is the inner handler.
\<close>

fun fallback_list :: "param \<Rightarrow> int \<Rightarrow> error + pyval list" where
  "fallback_list (Scalar v) len =
     (if np_isscalar (Scalar v) then Inr (replicate (nat len) v)
      else Inr (replicate (nat len) v))"
| "fallback_list (Sequence vs) len =
     (let param_len = int (length vs) in
      if param_len = 1 then Inr (concat (replicate (nat len) vs))
      else if param_len = len then Inr vs
      else Inl ValueError)"

text \<open>
  Lines 142-147: the conversion of every entry, \<open>None\<close> kept when \<open>keep_none\<close> is set.
  The conversion is the caller's and may raise.
\<close>

fun convert_all :: "(pyval \<Rightarrow> error + pyval) \<Rightarrow> bool \<Rightarrow> pyval list \<Rightarrow> error + pyval list" where
  "convert_all param_conv keep_none [] = Inr []"
| "convert_all param_conv keep_none (p # ps) =
     (if p = PyNone \<and> keep_none then
        (case convert_all param_conv keep_none ps of
           Inl e \<Rightarrow> Inl e
         | Inr r \<Rightarrow> Inr (p # r))
      else
        (case param_conv p of
           Inl e \<Rightarrow> Inl e
         | Inr q \<Rightarrow>
            (case convert_all param_conv keep_none ps of
               Inl e \<Rightarrow> Inl e
             | Inr r \<Rightarrow> Inr (q # r))))"

text \<open>
  The function, lines 110-149. \<open>has_broadcast_to\<close> says whether the installed numpy has
  \<open>broadcast_to\<close>: the try block succeeds or raises ValueError with it, and raises
  AttributeError, handled by the fallback, without it.
\<close>

definition normalized_scalar_param_list ::
    "bool \<Rightarrow> param \<Rightarrow> int \<Rightarrow> (pyval \<Rightarrow> error + pyval) option \<Rightarrow> bool \<Rightarrow> error + pyval list" where
  "normalized_scalar_param_list has_broadcast_to p len param_conv keep_none =
     (if len \<le> 0 then Inl ValueError
      else
        case (if has_broadcast_to then np_broadcast_to (np_array_ndmin1 p) (nat len)
              else fallback_list p len) of
          Inl e \<Rightarrow> Inl e
        | Inr out_list \<Rightarrow>
            (if int (length out_list) \<noteq> len then Inl ValueError
             else (case param_conv of
                     None \<Rightarrow> Inr out_list
                   | Some conv \<Rightarrow> convert_all conv keep_none out_list)))"

section \<open>The native extension\<close>

text \<open>
  The compiled extensions (\<open>odlpp.odlpp_cuda\<close> for ODL, \<open>RLcpp.PyCuda\<close> for RL) are
  not part of the repository. An object of one of their classes is, for the Python
  layer, its class and its identity; what the device memory holds is never read here.
\<close>

datatype cuda_type =
    CudaVectorFloat32 | CudaVectorFloat64
  | CudaVectorInt8 | CudaVectorInt16 | CudaVectorInt32 | CudaVectorInt64
  | CudaVectorUInt8 | CudaVectorUInt16 | CudaVectorUInt32 | CudaVectorUInt64

datatype native_class = Cuda cuda_type | CudaRNVectorImpl | CudaRNImpl

record handle =
  hclass :: native_class
  hid :: nat

text \<open>
  The Python objects handed to the vector constructors and to \<open>element\<close>: a scalar
  (with \<open>None\<close>), an object of a native class, a numpy array, a list.
\<close>

datatype pyobj = Val pyval | Native handle | NdArray "pyval list" | PyList "pyval list"

text \<open>
  \<open>isinstance(obj, cls)\<close> for a native class: the native classes have no subclasses
  among the objects above.
\<close>

fun isinstance :: "pyobj \<Rightarrow> native_class \<Rightarrow> bool" where
  "isinstance (Native h) c = (hclass h = c)"
| "isinstance obj c = False"

section \<open>numpy\<close>

text \<open>
  numpy is not part of the repository either. The Python layer uses it to convert a
  value to an array of a given dtype before the array goes to the extension:
  \<open>np.asarray(value, dtype=...)\<close>, \<open>np.array(value, dtype=...)\<close> and
  \<open>value.astype(...)\<close>. The conversion returns the array (its entries, numbers of that
  dtype) or raises, a ValueError on a string that is no number for instance. It is a
  parameter of every function that converts.
\<close>

datatype np_dtype =
    np_float16 | np_float32 | np_float64
  | np_int8 | np_int16 | np_int32 | np_int64
  | np_uint8 | np_uint16 | np_uint32 | np_uint64
  | np_complex64 | np_complex128 | np_bool | np_object

datatype np_number = Np_int int | Np_float rat | Np_nan | Np_inf bool

record numpy =
  asarray :: "pyobj \<Rightarrow> np_dtype \<Rightarrow> error + np_number list"

text \<open>\<open>np.float\<close> is Python's \<open>float\<close>; as a dtype it is \<open>float64\<close>.\<close>

definition np_float :: np_dtype where
  "np_float = np_float64"

section \<open>The entry points of the extension\<close>

text \<open>The entry points of the extensions that the Python layer calls, with their arguments.\<close>

datatype native_call =
    Call_Vector cuda_type int
  | Call_Vector_fill cuda_type int int
  | Call_from_pointer cuda_type pyobj int
  | Call_setslice handle index "np_number list"
  | Call_cuda_sum pyobj
  | Call_cuda_abs pyobj pyobj
  | Call_CudaRNImpl pyval
  | Call_empty handle
  | Call_setSlice handle index "np_number list"
  | Call_CudaRNVectorImpl "pyobj list"
  | Call_PyCuda_abs "handle list"
  | Call_PyCuda_sum "handle list"

text \<open>
  What the extension answers. A constructor returns the identity of the new object or
  raises; a void entry point returns nothing or raises (\<open>Some e\<close>); a reduction returns
  a scalar of the opaque type \<open>'s\<close> or raises. The answers are parameters of every
  function that reaches the extension.
\<close>

record 's native =
  Vector_new :: "cuda_type \<Rightarrow> int \<Rightarrow> error + nat"
  Vector_new_fill :: "cuda_type \<Rightarrow> int \<Rightarrow> int \<Rightarrow> error + nat"
  from_pointer :: "cuda_type \<Rightarrow> pyobj \<Rightarrow> int \<Rightarrow> error + nat"
  setslice :: "handle \<Rightarrow> index \<Rightarrow> np_number list \<Rightarrow> error option"
  cuda_sum :: "pyobj \<Rightarrow> error + 's"
  cuda_abs :: "pyobj \<Rightarrow> pyobj \<Rightarrow> error option"
  CudaRNImpl_new :: "pyval \<Rightarrow> error + nat"
  impl_empty :: "handle \<Rightarrow> error + nat"
  setSlice :: "handle \<Rightarrow> index \<Rightarrow> np_number list \<Rightarrow> error option"
  CudaRNVectorImpl_new :: "pyobj list \<Rightarrow> error + nat"
  PyCuda_abs :: "handle list \<Rightarrow> error + 's"
  PyCuda_sum :: "handle list \<Rightarrow> error + 's"

text \<open>
  A function of the Python layer returns what it returns or raises, and the calls it
  made into the extension, in order.
\<close>

type_synonym 'a outcome = "(error + 'a) \<times> native_call list"

section \<open>odl/space/cuda.py\<close>

text \<open>
  The size of numpy's default integer \<open>np.int\<close> (a C long) on the platform, and
  \<open>np.dtype(np.int)\<close>.
\<close>

datatype c_long = Long32 | Long64

fun itemsize :: "c_long \<Rightarrow> nat" where
  "itemsize Long32 = 4"
| "itemsize Long64 = 8"

fun np_int :: "c_long \<Rightarrow> np_dtype" where
  "np_int Long32 = np_int32"
| "np_int Long64 = np_int64"

text \<open>\<open>_get_int_type\<close>, lines 41-47, with \<open>None\<close> for the NotImplementedError.\<close>

definition get_int_type :: "c_long \<Rightarrow> cuda_type option" where
  "get_int_type l =
     (if itemsize l = 4 then Some CudaVectorInt32
      else if itemsize l = 8 then Some CudaVectorInt64
      else None)"

text \<open>
  The class attribute \<open>CudaFn.dtypes\<close>, lines 58-69: the entries of the dict display in
  their order. A later entry with an equal key replaces an earlier one, which
  \<open>dict_of\<close> reproduces.
\<close>

definition dtypes_items :: "c_long \<Rightarrow> (np_dtype \<times> cuda_type) list" where
  "dtypes_items l =
     [(np_float, CudaVectorFloat64),
      (np_float32, CudaVectorFloat32),
      (np_float64, CudaVectorFloat64)] @
     (case get_int_type l of None \<Rightarrow> [] | Some t \<Rightarrow> [(np_int l, t)]) @
     [(np_int8, CudaVectorInt8),
      (np_int16, CudaVectorInt16),
      (np_int32, CudaVectorInt32),
      (np_int64, CudaVectorInt64),
      (np_uint8, CudaVectorUInt8),
      (np_uint16, CudaVectorUInt16),
      (np_uint32, CudaVectorUInt32),
      (np_uint64, CudaVectorUInt64)]"

definition dict_of :: "('k \<times> 'v) list \<Rightarrow> 'k \<Rightarrow> 'v option" where
  "dict_of items = map_of (rev items)"

definition dtypes :: "c_long \<Rightarrow> np_dtype \<Rightarrow> cuda_type option" where
  "dtypes l = dict_of (dtypes_items l)"

text \<open>
  The \<open>dtype\<close> argument and \<open>np.dtype(dtype)\<close>: a numpy type, Python's \<open>float\<close> or
  \<open>int\<close>, or an object numpy does not understand (TypeError).
\<close>

datatype dtype_arg = DT np_dtype | Py_float | Py_int | Not_a_dtype

fun np_dtype_of :: "c_long \<Rightarrow> dtype_arg \<Rightarrow> error + np_dtype" where
  "np_dtype_of l (DT t) = Inr t"
| "np_dtype_of l Py_float = Inr np_float"
| "np_dtype_of l Py_int = Inr (np_int l)"
| "np_dtype_of l Not_a_dtype = Inl TypeError"

text \<open>
  \<open>isinstance(dim, Integral)\<close>: Python's \<open>int\<close> and \<open>bool\<close> are Integral, and a
  \<open>bool\<close> compares as 0 or 1.
\<close>

fun integral_value :: "pyval \<Rightarrow> int option" where
  "integral_value (PyInt n) = Some n"
| "integral_value (PyBool b) = Some (if b then 1 else 0)"
| "integral_value v = None"

datatype space_class = CudaFn | CudaRn

text \<open>
  A space: its class and the attributes \<open>_dim\<close>, \<open>_dtype\<close>, \<open>_vector_impl\<close>
  (\<open>_field\<close> is always \<open>RealNumbers()\<close>).
\<close>

record space =
  cls :: space_class
  dim :: int
  dtype :: np_dtype
  vector_impl :: cuda_type

text \<open>\<open>CudaFn.__init__\<close>, lines 86-96, for an object of class \<open>c\<close>.\<close>

definition Fn_init :: "space_class \<Rightarrow> c_long \<Rightarrow> pyval \<Rightarrow> dtype_arg \<Rightarrow> space outcome" where
  "Fn_init c l dim_arg dtype_arg =
     (case integral_value dim_arg of
        None \<Rightarrow> (Inl TypeError, [])
      | Some n \<Rightarrow>
          if n < 1 then (Inl TypeError, [])
          else (case np_dtype_of l dtype_arg of
                  Inl e \<Rightarrow> (Inl e, [])
                | Inr t \<Rightarrow>
                    (case dtypes l t of
                       None \<Rightarrow> (Inl TypeError, [])
                     | Some impl \<Rightarrow>
                         (Inr \<lparr>cls = c, dim = n, dtype = t, vector_impl = impl\<rparr>, []))))"

text \<open>The constructor calls \<open>CudaFn(dim, dtype)\<close> and \<open>CudaRn(dim)\<close> (line 528).\<close>

definition CudaFn_init :: "c_long \<Rightarrow> pyval \<Rightarrow> dtype_arg \<Rightarrow> space outcome" where
  "CudaFn_init l dim_arg dtype_arg = Fn_init CudaFn l dim_arg dtype_arg"

definition CudaRn_init :: "c_long \<Rightarrow> pyval \<Rightarrow> space outcome" where
  "CudaRn_init l dim_arg = Fn_init CudaRn l dim_arg (DT np_float32)"

text \<open>A vector: the attributes \<open>space\<close> (set by the base class) and \<open>_data\<close>.\<close>

record vector =
  vspace :: space
  data :: pyobj

text \<open>
  What a Python \<open>__init__\<close> hands back: it falls off its end (returning \<open>None\<close>, the
  object initialised), or it executes \<open>return e\<close> with an object \<open>e\<close>.
\<close>

datatype 'a init_result = Returns_None 'a | Returns_object error

text \<open>
  \<open>CudaFn.Vector.__init__\<close>, lines 324-331. On a mismatch the TypeError object is
  built and returned, not raised; \<open>_data\<close> is not set.
\<close>

definition Vector_init :: "space \<Rightarrow> pyobj \<Rightarrow> vector init_result" where
  "Vector_init s d =
     (if \<not> isinstance d (Cuda (vector_impl s)) then Returns_object TypeError
      else Returns_None \<lparr>vspace = s, data = d\<rparr>)"

text \<open>
  Calling a class: Python runs \<open>__init__\<close> and raises
  \<open>TypeError: __init__() should return None\<close> when it returned anything else.
\<close>

fun instantiate :: "'a init_result \<Rightarrow> error + 'a" where
  "instantiate (Returns_None obj) = Inr obj"
| "instantiate (Returns_object e) = Inl TypeError"

definition Vector :: "space \<Rightarrow> pyobj \<Rightarrow> error + vector" where
  "Vector s d = instantiate (Vector_init s d)"

text \<open>\<open>len(v)\<close>, line 421.\<close>

definition len_vector :: "vector \<Rightarrow> int" where
  "len_vector v = dim (vspace v)"

text \<open>
  \<open>Vector.__setitem__\<close> with a slice, lines 500-505. The value is first converted with
  \<open>np.asarray(value, dtype=self.space._dtype)\<close>, which may raise; the array then goes
  to \<open>setslice\<close>, a method of the handle in \<open>_data\<close> (any other object has no such
  attribute).
\<close>

definition setitem_slice ::
    "numpy \<Rightarrow> 's native \<Rightarrow> vector \<Rightarrow> index \<Rightarrow> pyobj \<Rightarrow> vector outcome" where
  "setitem_slice np ext v idx val =
     (case asarray np val (dtype (vspace v)) of
        Inl e \<Rightarrow> (Inl e, [])
      | Inr arr \<Rightarrow>
          (case data v of
             Native h \<Rightarrow>
               (case setslice ext h idx arr of
                  Some e \<Rightarrow> (Inl e, [Call_setslice h idx arr])
                | None \<Rightarrow> (Inr v, [Call_setslice h idx arr]))
           | other \<Rightarrow> (Inl AttributeError, [])))"

text \<open>\<open>CudaFn.element\<close>, lines 139-149; \<open>Val PyNone\<close> is Python's \<open>None\<close>.\<close>

definition element_empty :: "'s native \<Rightarrow> space \<Rightarrow> vector outcome" where
  "element_empty ext s =
     (case Vector_new ext (vector_impl s) (dim s) of
        Inl e \<Rightarrow> (Inl e, [Call_Vector (vector_impl s) (dim s)])
      | Inr i \<Rightarrow>
          (Vector s (Native \<lparr>hclass = Cuda (vector_impl s), hid = i\<rparr>),
           [Call_Vector (vector_impl s) (dim s)]))"

text \<open>\<open>CudaFn.zero\<close>, line 205: the same constructor with the fill value 0.\<close>

definition zero_vector :: "'s native \<Rightarrow> space \<Rightarrow> vector outcome" where
  "zero_vector ext s =
     (case Vector_new_fill ext (vector_impl s) (dim s) 0 of
        Inl e \<Rightarrow> (Inl e, [Call_Vector_fill (vector_impl s) (dim s) 0])
      | Inr i \<Rightarrow>
          (Vector s (Native \<lparr>hclass = Cuda (vector_impl s), hid = i\<rparr>),
           [Call_Vector_fill (vector_impl s) (dim s) 0]))"

definition element ::
    "numpy \<Rightarrow> 's native \<Rightarrow> space \<Rightarrow> pyobj \<Rightarrow> pyobj \<Rightarrow> vector outcome" where
  "element np ext s inp data_ptr =
     (if inp = Val PyNone \<and> data_ptr = Val PyNone then element_empty ext s
      else if inp = Val PyNone then
        (case from_pointer ext (vector_impl s) data_ptr (dim s) of
           Inl e \<Rightarrow> (Inl e, [Call_from_pointer (vector_impl s) data_ptr (dim s)])
         | Inr i \<Rightarrow>
             (Vector s (Native \<lparr>hclass = Cuda (vector_impl s), hid = i\<rparr>),
              [Call_from_pointer (vector_impl s) data_ptr (dim s)]))
      else if data_ptr = Val PyNone then
        (case element_empty ext s of
           (Inl e, calls) \<Rightarrow> (Inl e, calls)
         | (Inr elem, calls) \<Rightarrow>
             (case setitem_slice np ext elem slice_None inp of
                (r, calls') \<Rightarrow> (r, calls @ calls')))
      else (Inl TypeError, []))"

text \<open>The space of RL (RL/space/cuda.py): the attributes \<open>n\<close> and \<open>impl\<close>, as \<open>rl_n\<close> and \<open>rl_impl\<close>.\<close>

record rl_space =
  rl_n :: pyval
  rl_impl :: handle

datatype any_object = Odl_space space | Rl_space rl_space | Other pyobj

text \<open>
  \<open>CudaFn.equals\<close>, lines 291-293. \<open>other\<close> is any object: a space of this module, a
  space of RL, or something else; \<open>type(self) == type(other)\<close> holds for a space of the
  same class only.
\<close>

fun equals :: "space \<Rightarrow> any_object \<Rightarrow> bool" where
  "equals s (Odl_space other) =
     (cls s = cls other \<and> dim s = dim other \<and> dtype s = dtype other)"
| "equals s other = False"

text \<open>
  Modelled from the spec: the operators \<open>==\<close> and \<open>!=\<close> of a space are defined in the
  base class (odl/space/set.py), which is not among the sources; the docstring of
  \<open>equals\<close> shows them agreeing with it ("We also support operators '==' and '!='").
\<close>

definition space_eq :: "space \<Rightarrow> any_object \<Rightarrow> bool" where
  "space_eq s other = equals s other"

definition space_ne :: "space \<Rightarrow> any_object \<Rightarrow> bool" where
  "space_ne s other = (\<not> equals s other)"

text \<open>The module-level forwarders \<open>abs\<close> and \<open>sum\<close>, lines 629-630 and 649-650.\<close>

definition abs_cuda :: "'s native \<Rightarrow> vector \<Rightarrow> vector \<Rightarrow> unit outcome" where
  "abs_cuda ext inp outp =
     ((case cuda_abs ext (data inp) (data outp) of Some e \<Rightarrow> Inl e | None \<Rightarrow> Inr ()),
      [Call_cuda_abs (data inp) (data outp)])"

definition sum_cuda :: "'s native \<Rightarrow> vector \<Rightarrow> 's outcome" where
  "sum_cuda ext inp = (cuda_sum ext (data inp), [Call_cuda_sum (data inp)])"

section \<open>RL/space/cuda.py\<close>

text \<open>\<open>CudaRN.__init__\<close>, lines 44-47.\<close>

definition CudaRN_init :: "'s native \<Rightarrow> pyval \<Rightarrow> rl_space outcome" where
  "CudaRN_init ext n_arg =
     (case CudaRNImpl_new ext n_arg of
        Inl e \<Rightarrow> (Inl e, [Call_CudaRNImpl n_arg])
      | Inr i \<Rightarrow>
          (Inr \<lparr>rl_n = n_arg, rl_impl = \<lparr>hclass = CudaRNImpl, hid = i\<rparr>\<rparr>, [Call_CudaRNImpl n_arg]))"

definition dimension :: "rl_space \<Rightarrow> pyval" where
  "dimension s = rl_n s"

text \<open>
  Python's \<open>==\<close> on scalars: numbers compare by value across \<open>int\<close>, \<open>bool\<close> and
  \<open>float\<close>; strings with strings; \<open>None\<close> with \<open>None\<close>.
\<close>

fun num_value :: "pyval \<Rightarrow> rat option" where
  "num_value (PyInt i) = Some (of_int i)"
| "num_value (PyBool b) = Some (if b then 1 else 0)"
| "num_value (PyFloat q) = Some q"
| "num_value v = None"

definition py_eq :: "pyval \<Rightarrow> pyval \<Rightarrow> bool" where
  "py_eq a b =
     (case (num_value a, num_value b) of
        (Some x, Some y) \<Rightarrow> x = y
      | (None, None) \<Rightarrow> a = b
      | other \<Rightarrow> False)"

text \<open>\<open>CudaRN.equals\<close>, lines 75-76.\<close>

fun equals_RN :: "rl_space \<Rightarrow> any_object \<Rightarrow> bool" where
  "equals_RN s (Rl_space other) = py_eq (rl_n s) (rl_n other)"
| "equals_RN s other = False"

record rl_vector =
  rspace :: rl_space
  vimpl :: handle

text \<open>
  The value assigned through \<open>Vector.__setitem__\<close>: an object of the caller, or the
  float array that line 135 has already built.
\<close>

datatype rl_value = Object pyobj | Float_array "np_number list"

text \<open>
  \<open>Vector.__setitem__\<close> with a slice, lines 155-162. A value that is not an ndarray
  is converted with \<open>np.array(value, dtype=np.float)\<close>; an ndarray goes through
  \<open>value.astype(np.float)\<close> (the test \<open>value.dtype.type is not np.float\<close> compares a
  numpy scalar type with Python's \<open>float\<close> and is always true). Either conversion may
  raise; on an array that is already float64 \<open>astype\<close> is a copy. The array then goes
  to \<open>setSlice\<close>.
\<close>

fun setitem_slice_RN ::
    "numpy \<Rightarrow> 's native \<Rightarrow> rl_vector \<Rightarrow> index \<Rightarrow> rl_value \<Rightarrow> rl_vector outcome" where
  "setitem_slice_RN np ext v idx (Object val) =
     (case asarray np val np_float of
        Inl e \<Rightarrow> (Inl e, [])
      | Inr arr \<Rightarrow>
          (case setSlice ext (vimpl v) idx arr of
             Some e \<Rightarrow> (Inl e, [Call_setSlice (vimpl v) idx arr])
           | None \<Rightarrow> (Inr v, [Call_setSlice (vimpl v) idx arr])))"
| "setitem_slice_RN np ext v idx (Float_array arr) =
     (case setSlice ext (vimpl v) idx arr of
        Some e \<Rightarrow> (Inl e, [Call_setSlice (vimpl v) idx arr])
      | None \<Rightarrow> (Inr v, [Call_setSlice (vimpl v) idx arr]))"

text \<open>
  The ndarray branch, lines 130-132: \<open>self.impl = space.impl.empty()\<close>, then
  \<open>self[:] = args[0]\<close>.
\<close>

definition Vector_RN_ndarray ::
    "numpy \<Rightarrow> 's native \<Rightarrow> rl_space \<Rightarrow> pyval list \<Rightarrow> rl_vector outcome" where
  "Vector_RN_ndarray np ext s a =
     (case impl_empty ext (rl_impl s) of
        Inl e \<Rightarrow> (Inl e, [Call_empty (rl_impl s)])
      | Inr i \<Rightarrow>
          (case setitem_slice_RN np ext
                  \<lparr>rspace = s, vimpl = \<lparr>hclass = CudaRNVectorImpl, hid = i\<rparr>\<rparr>
                  slice_None (Object (NdArray a)) of
             (r, calls) \<Rightarrow> (r, Call_empty (rl_impl s) # calls)))"

text \<open>
  The list branch, lines 133-135: \<open>self.impl = space.impl.empty()\<close>, then
  \<open>np.array(args[0], dtype=np.float)\<close>, which may raise, then the assignment of
  that array.
\<close>

definition Vector_RN_list ::
    "numpy \<Rightarrow> 's native \<Rightarrow> rl_space \<Rightarrow> pyval list \<Rightarrow> rl_vector outcome" where
  "Vector_RN_list np ext s a =
     (case impl_empty ext (rl_impl s) of
        Inl e \<Rightarrow> (Inl e, [Call_empty (rl_impl s)])
      | Inr i \<Rightarrow>
          (case asarray np (PyList a) np_float of
             Inl e \<Rightarrow> (Inl e, [Call_empty (rl_impl s)])
           | Inr arr \<Rightarrow>
               (case setitem_slice_RN np ext
                       \<lparr>rspace = s, vimpl = \<lparr>hclass = CudaRNVectorImpl, hid = i\<rparr>\<rparr>
                       slice_None (Float_array arr) of
                  (r, calls) \<Rightarrow> (r, Call_empty (rl_impl s) # calls))))"

text \<open>The last branch, line 137: all arguments go to the native constructor.\<close>

definition Vector_RN_native :: "'s native \<Rightarrow> rl_space \<Rightarrow> pyobj list \<Rightarrow> rl_vector outcome" where
  "Vector_RN_native ext s args =
     (case CudaRNVectorImpl_new ext args of
        Inl e \<Rightarrow> (Inl e, [Call_CudaRNVectorImpl args])
      | Inr i \<Rightarrow>
          (Inr \<lparr>rspace = s, vimpl = \<lparr>hclass = CudaRNVectorImpl, hid = i\<rparr>\<rparr>,
           [Call_CudaRNVectorImpl args]))"

text \<open>
  \<open>CudaRN.Vector.__init__(self, space, *args)\<close>, lines 126-137, by the class of
  \<open>args[0]\<close>; with no argument \<open>args[0]\<close> raises IndexError.
\<close>

fun Vector_RN :: "numpy \<Rightarrow> 's native \<Rightarrow> rl_space \<Rightarrow> pyobj list \<Rightarrow> rl_vector outcome" where
  "Vector_RN np ext s [] = (Inl IndexError, [])"
| "Vector_RN np ext s (Native h # rest) =
     (if hclass h = CudaRNVectorImpl then (Inr \<lparr>rspace = s, vimpl = h\<rparr>, [])
      else Vector_RN_native ext s (Native h # rest))"
| "Vector_RN np ext s (NdArray a # rest) = Vector_RN_ndarray np ext s a"
| "Vector_RN np ext s (PyList a # rest) = Vector_RN_list np ext s a"
| "Vector_RN np ext s (Val v # rest) = Vector_RN_native ext s (Val v # rest)"

text \<open>
  The function wrapped by the property \<open>CudaRN.sum\<close>, line 122:
  \<open>lambda input, output: RLcpp.PyCuda.abs(input.impl)\<close>.
\<close>

definition sum_RN :: "'s native \<Rightarrow> rl_vector \<Rightarrow> rl_vector \<Rightarrow> 's outcome" where
  "sum_RN ext input output = (PyCuda_abs ext [vimpl input], [Call_PyCuda_abs [vimpl input]])"

section \<open>Concrete backends and a concrete numpy\<close>

text \<open>
  An extension on which every constructor returns object 0, every void entry point
  returns, and every reduction returns 0; it serves the evaluations at concrete inputs.
\<close>

definition accepting :: "int native" where
  "accepting =
     \<lparr>Vector_new = (\<lambda>t k. Inr 0),
      Vector_new_fill = (\<lambda>t k v. Inr 0),
      from_pointer = (\<lambda>t p k. Inr 0),
      setslice = (\<lambda>h i v. None),
      cuda_sum = (\<lambda>h. Inr 0),
      cuda_abs = (\<lambda>a b. None),
      CudaRNImpl_new = (\<lambda>k. Inr 0),
      impl_empty = (\<lambda>h. Inr 0),
      setSlice = (\<lambda>h i v. None),
      CudaRNVectorImpl_new = (\<lambda>args. Inr 0),
      PyCuda_abs = (\<lambda>hs. Inr 0),
      PyCuda_sum = (\<lambda>hs. Inr 0)\<rparr>"

text \<open>
  The same backend with the device memory exhausted: the constructors raise the
  extension's MemoryError.
\<close>

definition out_of_memory :: "int native" where
  "out_of_memory =
     accepting
       \<lparr>Vector_new := (\<lambda>t k. Inl (NativeError ''MemoryError'')),
        CudaRNImpl_new := (\<lambda>k. Inl (NativeError ''MemoryError''))\<rparr>"

text \<open>
  A numpy for the evaluations at concrete inputs. It converts a list or an array of
  integers, booleans and floats (a scalar as a single entry) to floats of the same
  value and \<open>None\<close> to NaN, whatever the dtype asked; it raises ValueError on a string
  entry (as numpy does on a string that is no number) and TypeError on a native
  object.
\<close>

fun float_of :: "pyval \<Rightarrow> error + np_number" where
  "float_of (PyInt i) = Inr (Np_float (of_int i))"
| "float_of (PyBool b) = Inr (Np_float (if b then 1 else 0))"
| "float_of (PyFloat q) = Inr (Np_float q)"
| "float_of PyNone = Inr Np_nan"
| "float_of (PyStr s) = Inl ValueError"

fun floats_of :: "pyval list \<Rightarrow> error + np_number list" where
  "floats_of [] = Inr []"
| "floats_of (v # vs) =
     (case float_of v of
        Inl e \<Rightarrow> Inl e
      | Inr x \<Rightarrow> (case floats_of vs of Inl e \<Rightarrow> Inl e | Inr xs \<Rightarrow> Inr (x # xs)))"

fun to_floats :: "pyobj \<Rightarrow> np_dtype \<Rightarrow> error + np_number list" where
  "to_floats (NdArray a) t = floats_of a"
| "to_floats (PyList a) t = floats_of a"
| "to_floats (Val v) t = floats_of [v]"
| "to_floats (Native h) t = Inl TypeError"

definition float_numpy :: numpy where
  "float_numpy = \<lparr>asarray = to_floats\<rparr>"

section \<open>Notions of the specification\<close>

text \<open>
  The number of elements \<open>slice(start, stop, step)\<close> selects on an axis of size \<open>n\<close>,
  as Python's \<open>slice.indices\<close> computes it (\<open>step\<close> not 0).
\<close>

definition slice_bound :: "int option \<Rightarrow> int \<Rightarrow> int \<Rightarrow> int \<Rightarrow> int" where
  "slice_bound b step n dflt =
     (case b of
        None \<Rightarrow> dflt
      | Some i \<Rightarrow>
          (let j = (if i < 0 then i + n else i) in
           if j < 0 then (if step < 0 then - 1 else 0)
           else if j \<ge> n then (if step < 0 then n - 1 else n)
           else j))"

definition slice_length :: "int option \<Rightarrow> int option \<Rightarrow> int option \<Rightarrow> int \<Rightarrow> int" where
  "slice_length start stop step n =
     (let st = (case step of None \<Rightarrow> 1 | Some k \<Rightarrow> k);
          lo = slice_bound start st n (if st < 0 then n - 1 else 0);
          hi = slice_bound stop st n (if st < 0 then - 1 else n)
      in if st < 0 then (if hi < lo then (lo - hi - 1) div (- st) + 1 else 0)
         else (if lo < hi then (hi - lo - 1) div st + 1 else 0))"

text \<open>
  The dtypes the specification lists as supported: 32/64-bit float and 8/16/32/64-bit
  signed and unsigned integer.
\<close>

definition spec_supported :: "np_dtype list" where
  "spec_supported =
     [np_float32, np_float64, np_int8, np_int16, np_int32, np_int64,
      np_uint8, np_uint16, np_uint32, np_uint64]"

section \<open>Index normalization\<close>

subsection \<open>Position of the ellipsis\<close>

lemma list_index_split:
  "a \<in> set xs \<Longrightarrow> xs = take (list_index xs a) xs @ a # drop (Suc (list_index xs a)) xs"
  by (induction xs) auto

lemma list_index_take:
  "a \<notin> set (take (list_index xs a) xs)"
  by (induction xs) auto

lemma list_index_less:
  "a \<in> set xs \<Longrightarrow> list_index xs a < length xs"
  by (induction xs) auto

lemma count_list_0_iff: "count_list xs a = 0 \<longleftrightarrow> a \<notin> set xs"
  by (induction xs) auto

lemma list_index_drop:
  "count_list xs a \<le> 1 \<Longrightarrow> a \<notin> set (drop (Suc (list_index xs a)) xs)"
  by (induction xs) (auto simp: count_list_0_iff split: if_splits)



lemma expand_ellipsis_result:
  assumes "expand_ellipsis nd xs = Inr ys" and "Ellipsis \<in> set xs"
  shows "ys = take (list_index xs Ellipsis) xs
               @ replicate (nat (int nd - int (length xs) + 1)) slice_None
               @ drop (Suc (list_index xs Ellipsis)) xs"
    and "count_list xs Ellipsis \<le> 1"
  using assms by (auto simp: expand_ellipsis_def Let_def split: if_splits)

lemma expand_ellipsis_no_Ellipsis:
  assumes "expand_ellipsis nd xs = Inr ys"
  shows "Ellipsis \<notin> set ys"
proof (cases "Ellipsis \<in> set xs")
  case False
  with assms show ?thesis by (simp add: expand_ellipsis_def)
next
  case True
  from expand_ellipsis_result[OF assms True]
       list_index_take[of Ellipsis xs] list_index_drop[of xs Ellipsis]
  show ?thesis by auto
qed

lemma expand_ellipsis_length:
  assumes "expand_ellipsis nd xs = Inr ys" and "Ellipsis \<in> set xs"
  shows "length ys = length xs - 1 + nat (int nd - int (length xs) + 1)"
  using expand_ellipsis_result(1)[OF assms] list_index_less[OF assms(2)] by auto

lemma expand_append_length:
  assumes "expand_ellipsis nd (append_ellipsis nd xs) = Inr ys" and "length ys \<le> nd"
  shows "length ys = nd"
proof (cases "Ellipsis \<in> set (append_ellipsis nd xs)")
  case True
  from expand_ellipsis_length[OF assms(1) True] assms(2) show ?thesis
    by (cases "append_ellipsis nd xs") auto
next
  case False
  then have "append_ellipsis nd xs = xs" and "\<not> length xs < nd"
    by (auto simp: append_ellipsis_def split: if_splits)
  with False assms show ?thesis by (simp add: expand_ellipsis_def)
qed

lemma expand_ellipsis_keeps:
  assumes "expand_ellipsis nd xs = Inr ys" and "x \<in> set xs" and "x \<noteq> Ellipsis"
  shows "x \<in> set ys"
proof (cases "Ellipsis \<in> set xs")
  case False
  with assms show ?thesis by (simp add: expand_ellipsis_def)
next
  case True
  from list_index_split[OF True] assms(2,3)
  have "x \<in> set (take (list_index xs Ellipsis) xs)
        \<or> x \<in> set (drop (Suc (list_index xs Ellipsis)) xs)"
    by (metis Un_iff set_ConsD set_append)
  with expand_ellipsis_result(1)[OF assms(1) True] show ?thesis by auto
qed

lemma expand_ellipsis_error:
  "expand_ellipsis nd xs = Inl e \<Longrightarrow> e = ValueError"
  by (auto simp: expand_ellipsis_def Let_def split: if_splits)




subsection \<open>The loop over the axes and the final checks\<close>

lemma check_ints_length:
  "check_ints b xs shape = Inr r \<Longrightarrow> length r = length xs"
  by (induction b xs shape arbitrary: r rule: check_ints.induct)
     (auto simp: Let_def split: if_splits sum.splits)

lemma check_ints_entries:
  "check_ints b xs shape = Inr r \<Longrightarrow> x \<in> set r \<Longrightarrow> x \<in> set xs \<or> is_Integer x \<or> is_Slice x"
  by (induction b xs shape arbitrary: r rule: check_ints.induct)
     (auto simp: Let_def split: if_splits sum.splits)

lemma check_ints_error:
  "check_ints b xs shape = Inl e \<Longrightarrow> e = IndexError"
  by (induction b xs shape rule: check_ints.induct)
     (auto simp: Let_def split: if_splits sum.splits)

lemma check_ints_keeps_NewAxis:
  "check_ints b xs shape = Inr r \<Longrightarrow> NewAxis \<in> set xs \<Longrightarrow> NewAxis \<in> set r"
  by (induction b xs shape arbitrary: r rule: check_ints.induct)
     (auto simp: Let_def split: if_splits sum.splits)

lemma index_cases: "x \<noteq> Ellipsis \<Longrightarrow> x \<noteq> NewAxis \<Longrightarrow> is_Integer x \<or> is_Slice x"
  by (cases x) auto

lemma any_empty_axis_nth:
  "k < length xs \<Longrightarrow> k < length shape \<Longrightarrow> empty_axis (xs ! k) (shape ! k)
     \<Longrightarrow> any_empty_axis xs shape"
proof (induction xs shape arbitrary: k rule: any_empty_axis.induct)
  case (1 x xs n shape)
  then show ?case by (cases k) auto
qed auto

lemma new_axis_rejected:
  assumes "NewAxis \<in> set xs"
  shows "normalized_index_expression (Seq xs) shape b = Inl ValueError
         \<or> normalized_index_expression (Seq xs) shape b = Inl IndexError"
proof (cases "expand_ellipsis (length shape) (append_ellipsis (length shape) xs)")
  case (Inl e)
  with expand_ellipsis_error[OF Inl] show ?thesis
    by (simp add: normalized_index_expression_def)
next
  case (Inr ys)
  from assms have "NewAxis \<in> set (append_ellipsis (length shape) xs)"
    by (simp add: append_ellipsis_def)
  from expand_ellipsis_keeps[OF Inr this] have ys: "NewAxis \<in> set ys" by simp
  show ?thesis
  proof (cases "check_ints b ys shape")
    case (Inl e)
    with check_ints_error[OF Inl] Inr show ?thesis
      by (simp add: normalized_index_expression_def)
  next
    case zs: (Inr zs)
    from check_ints_keeps_NewAxis[OF zs ys] have "final_checks zs shape = Inl ValueError"
      by (simp add: final_checks_def)
    with Inr zs show ?thesis by (simp add: normalized_index_expression_def)
  qed
qed

subsection \<open>Integer indices\<close>

text \<open>
  C3. An integer index is wrapped by the axis size when negative and rejected with
  IndexError when the wrapped value reaches the axis size. The lower end is not checked:
  for the index \<open>-5\<close> on an axis of size 3 the wrapped value \<open>-2\<close> passes, and the
  function returns \<open>(-5,)\<close>, or \<open>(slice(-2, -1),)\<close> with \<open>int_to_slice=True\<close>,
  where an index outside \<open>[-3, 3)\<close> should raise.
\<close>

theorem index_below_range_not_rejected:
  "normalized_index_expression (Seq [Integer (- 5)]) [3] False = Inr [Integer (- 5)]
   \<and> normalized_index_expression (Seq [Integer (- 5)]) [3] True
        = Inr [Slice (Some (- 2)) (Some (- 1)) None]"
  by (simp add: normalized_index_expression_def append_ellipsis_def expand_ellipsis_def
                final_checks_def)

subsection \<open>Empty slices and new axes\<close>

text \<open>
  C5, as stated, fails: \<open>slice(2, 1)\<close> selects no element of an axis of size 5, and
  the function returns it.
\<close>

theorem empty_slice_counterexample:
  "slice_length (Some 2) (Some 1) None 5 = 0
   \<and> normalized_index_expression (Seq [Slice (Some 2) (Some 1) None]) [5] False
        = Inr [Slice (Some 2) (Some 1) None]"
  by (simp add: normalized_index_expression_def append_ellipsis_def expand_ellipsis_def
                final_checks_def slice_length_def slice_bound_def)

text \<open>
  C5, amended. The check catches the common cases only: the function raises ValueError
  whenever the normalized expression (the ellipsis expanded, the integers checked and
  converted) holds, on one of the axes, a slice whose start equals its stop and is not
  \<open>None\<close>, or whose start equals the size of the axis. An expression that contains
  \<open>None\<close> always raises: ValueError or IndexError for a sequence, TypeError when the
  expression is \<open>None\<close> itself.
\<close>

theorem detected_empty_axis_and_new_axis_rejected:
  "(to_list indices = Inr xs
      \<and> expand_ellipsis (length shape) (append_ellipsis (length shape) xs) = Inr ys
      \<and> check_ints b ys shape = Inr zs
      \<and> k < length zs \<and> k < length shape
      \<and> zs ! k = Slice start stop step
      \<and> ((start = stop \<and> start \<noteq> None) \<or> start = Some (shape ! k))
     \<longrightarrow> normalized_index_expression indices shape b = Inl ValueError)
   \<and> (NewAxis \<in> set us \<longrightarrow>
        normalized_index_expression (Seq us) shape b = Inl ValueError
        \<or> normalized_index_expression (Seq us) shape b = Inl IndexError)
   \<and> normalized_index_expression (Single NewAxis) shape b = Inl TypeError"
proof (intro conjI impI)
  assume a: "to_list indices = Inr xs
      \<and> expand_ellipsis (length shape) (append_ellipsis (length shape) xs) = Inr ys
      \<and> check_ints b ys shape = Inr zs
      \<and> k < length zs \<and> k < length shape
      \<and> zs ! k = Slice start stop step
      \<and> ((start = stop \<and> start \<noteq> None) \<or> start = Some (shape ! k))"
  then have "empty_axis (zs ! k) (shape ! k)" by auto
  with a have "any_empty_axis zs shape" using any_empty_axis_nth by blast
  with a show "normalized_index_expression indices shape b = Inl ValueError"
    by (simp add: normalized_index_expression_def final_checks_def)
next
  assume "NewAxis \<in> set us"
  then show "normalized_index_expression (Seq us) shape b = Inl ValueError
        \<or> normalized_index_expression (Seq us) shape b = Inl IndexError"
    by (rule new_axis_rejected)
next
  show "normalized_index_expression (Single NewAxis) shape b = Inl TypeError"
    by (simp add: normalized_index_expression_def)
qed

theorem detected_empty_axis_and_new_axis_rejected_witness:
  "normalized_index_expression (Seq [Slice (Some 2) (Some 2) None, Integer 0]) [5, 4] False
     = Inl ValueError
   \<and> normalized_index_expression (Seq [Integer 0, NewAxis]) [5, 4] False = Inl ValueError"
  using detected_empty_axis_and_new_axis_rejected
          [of "Seq [Slice (Some 2) (Some 2) None, Integer 0]"
              "[Slice (Some 2) (Some 2) None, Integer 0]" "[5, 4]"
              "[Slice (Some 2) (Some 2) None, Integer 0]" False
              "[Slice (Some 2) (Some 2) None, Integer 0]" 0 "Some 2" "Some 2" None
              "[Integer 0, NewAxis]"]
  by (simp add: append_ellipsis_def expand_ellipsis_def normalized_index_expression_def
                final_checks_def)

subsection \<open>Ellipsis\<close>













subsection \<open>Shape of the result\<close>

text \<open>
  C9. When \<open>normalized_index_expression\<close> returns, the tuple has one entry for each
  axis of the shape, and every entry is an integer or a slice.
\<close>

theorem normalized_index_expression_shape:
  assumes "normalized_index_expression indices shape b = Inr r"
  shows "length r = length shape \<and> (\<forall>x\<in>set r. is_Integer x \<or> is_Slice x)"
proof -
  from assms obtain xs ys where
    xs: "to_list indices = Inr xs" and
    ys: "expand_ellipsis (length shape) (append_ellipsis (length shape) xs) = Inr ys" and
    zs: "check_ints b ys shape = Inr r" and
    fin: "final_checks r shape = Inr r"
    by (auto simp: normalized_index_expression_def final_checks_def Let_def
             split: sum.splits if_splits)
  from fin have le: "length r \<le> length shape" and na: "NewAxis \<notin> set r"
    by (auto simp: final_checks_def split: if_splits)
  from check_ints_length[OF zs] le expand_append_length[OF ys] have "length r = length shape"
    by simp
  moreover have "is_Integer x \<or> is_Slice x" if "x \<in> set r" for x
  proof -
    from check_ints_entries[OF zs that] expand_ellipsis_no_Ellipsis[OF ys] na that
    show ?thesis using index_cases[of x] by auto
  qed
  ultimately show ?thesis by blast
qed

theorem normalized_index_expression_shape_witness:
  "normalized_index_expression (Seq [Integer 1, Slice None (Some 2) None]) [3, 4, 5] False
     = Inr [Integer 1, Slice None (Some 2) None, slice_None]
   \<and> length [Integer 1, Slice None (Some 2) None, slice_None] = length [3::int, 4, 5]"
  using normalized_index_expression_shape
          [of "Seq [Integer 1, Slice None (Some 2) None]" "[3, 4, 5]" False
              "[Integer 1, Slice None (Some 2) None, slice_None]"]
  by (simp add: normalized_index_expression_def append_ellipsis_def expand_ellipsis_def
                final_checks_def)

section \<open>Parameter broadcasting\<close>

lemma broadcast_single:
  "0 < m \<Longrightarrow> np_broadcast_to [v] m = Inr (replicate m v)"
  by (cases "m = 1") (auto simp: np_broadcast_to_def)

lemma nspl_single:
  assumes "1 \<le> L"
  shows "normalized_scalar_param_list hb (Scalar v) L None k = Inr (replicate (nat L) v)"
    and "normalized_scalar_param_list hb (Sequence [x]) L None k = Inr (replicate (nat L) x)"
  using assms broadcast_single[of "nat L"]
  by (auto simp: normalized_scalar_param_list_def)

lemma nspl_same_length:
  assumes "1 \<le> L" and "int (length xs) = L"
  shows "normalized_scalar_param_list hb (Sequence xs) L None k = Inr xs"
proof -
  from assms have "length xs = nat L" by auto
  with assms show ?thesis
    by (cases xs) (auto simp: normalized_scalar_param_list_def np_broadcast_to_def Let_def)
qed

lemma nspl_other_length:
  assumes "1 \<le> L" and "length xs \<noteq> 1" and "int (length xs) \<noteq> L"
  shows "normalized_scalar_param_list hb (Sequence xs) L None k = Inl ValueError"
proof -
  from assms have "length xs \<noteq> nat L" by auto
  with assms show ?thesis
    by (auto simp: normalized_scalar_param_list_def np_broadcast_to_def Let_def)
qed

lemma nspl_length:
  "normalized_scalar_param_list hb p L None k = Inr r \<Longrightarrow> int (length r) = L"
  by (auto simp: normalized_scalar_param_list_def split: if_splits sum.splits)

text \<open>
  C8. For a target length \<open>L \<ge> 1\<close> and no conversion, with or without
  \<open>np.broadcast_to\<close>: a scalar is repeated \<open>L\<close> times; the single entry of a sequence
  of length 1 is repeated \<open>L\<close> times; a sequence of length \<open>L\<close> is returned as a list,
  unchanged; a sequence of any other length raises ValueError; and every list returned
  has length \<open>L\<close>.
\<close>

theorem normalized_scalar_param_list_cases:
  "1 \<le> L \<longrightarrow>
     normalized_scalar_param_list hb (Scalar v) L None k = Inr (replicate (nat L) v)
   \<and> normalized_scalar_param_list hb (Sequence [x]) L None k = Inr (replicate (nat L) x)
   \<and> (int (length xs) = L \<longrightarrow> normalized_scalar_param_list hb (Sequence xs) L None k = Inr xs)
   \<and> (length xs \<noteq> 1 \<and> int (length xs) \<noteq> L \<longrightarrow>
        normalized_scalar_param_list hb (Sequence xs) L None k = Inl ValueError)
   \<and> (\<forall>p r. normalized_scalar_param_list hb p L None k = Inr r \<longrightarrow> int (length r) = L)"
proof (intro impI conjI allI)
  assume L: "1 \<le> L"
  show "normalized_scalar_param_list hb (Scalar v) L None k = Inr (replicate (nat L) v)"
    by (rule nspl_single(1)[OF L])
  show "normalized_scalar_param_list hb (Sequence [x]) L None k = Inr (replicate (nat L) x)"
    by (rule nspl_single(2)[OF L])
  show "normalized_scalar_param_list hb (Sequence xs) L None k = Inr xs"
    if "int (length xs) = L"
    by (rule nspl_same_length[OF L that])
  show "normalized_scalar_param_list hb (Sequence xs) L None k = Inl ValueError"
    if "length xs \<noteq> 1 \<and> int (length xs) \<noteq> L"
    using that nspl_other_length[OF L] by blast
  show "int (length r) = L"
    if "normalized_scalar_param_list hb p L None k = Inr r" for p r
    by (rule nspl_length[OF that])
qed

text \<open>
  The three examples: \<open>(5, 3)\<close> gives \<open>[5, 5, 5]\<close>, \<open>((1, 2, 3), 3)\<close> gives
  \<open>[1, 2, 3]\<close>, and \<open>((1, 2), 3)\<close> raises.
\<close>

theorem normalized_scalar_param_list_cases_witness:
  "normalized_scalar_param_list True (Scalar (PyInt 5)) 3 None True = Inr [PyInt 5, PyInt 5, PyInt 5]
   \<and> normalized_scalar_param_list True (Sequence [PyInt 7]) 3 None True = Inr [PyInt 7, PyInt 7, PyInt 7]
   \<and> normalized_scalar_param_list True (Sequence [PyInt 1, PyInt 2, PyInt 3]) 3 None True
        = Inr [PyInt 1, PyInt 2, PyInt 3]
   \<and> normalized_scalar_param_list True (Sequence [PyInt 1, PyInt 2]) 3 None True = Inl ValueError"
  using normalized_scalar_param_list_cases
          [of 3 True "PyInt 5" True "PyInt 7" "[PyInt 1, PyInt 2, PyInt 3]"]
        normalized_scalar_param_list_cases
          [of 3 True "PyInt 5" True "PyInt 7" "[PyInt 1, PyInt 2]"]
  by (simp add: numeral_3_eq_3)

section \<open>Spaces\<close>

lemma dtypes_supported:
  "dtypes l t \<noteq> None \<longleftrightarrow> t \<in> set spec_supported"
  by (cases l; cases t)
     (simp_all add: dtypes_def dict_of_def dtypes_items_def get_int_type_def np_float_def
                    spec_supported_def)

lemma Fn_init_bad_dim:
  assumes "integral_value d = None \<or> (\<exists>k<1. integral_value d = Some k)"
  shows "Fn_init c l d t = (Inl TypeError, [])"
  using assms by (auto simp: Fn_init_def)

lemma Fn_init_bad_dtype:
  assumes "\<forall>ty. np_dtype_of l t = Inr ty \<longrightarrow> ty \<notin> set spec_supported"
  shows "Fn_init c l d t = (Inl TypeError, [])"
proof (cases "np_dtype_of l t")
  case (Inl e)
  then have "e = TypeError" by (cases t) auto
  with Inl show ?thesis by (auto simp: Fn_init_def split: option.splits)
next
  case (Inr ty)
  with assms have "dtypes l ty = None" using dtypes_supported[of l ty] by auto
  with Inr show ?thesis by (auto simp: Fn_init_def split: option.splits)
qed

lemma Fn_init_ok:
  assumes "1 \<le> k" and "ty \<in> set spec_supported"
  shows "\<exists>i. dtypes l ty = Some i \<and>
             Fn_init c l (PyInt k) (DT ty) = (Inr \<lparr>cls = c, dim = k, dtype = ty, vector_impl = i\<rparr>, [])"
proof -
  from assms(2) obtain i where "dtypes l ty = Some i"
    using dtypes_supported[of l ty] by auto
  with assms(1) show ?thesis by (auto simp: Fn_init_def)
qed

lemma Fn_init_cls:
  "fst (Fn_init c l d t) = Inr s \<Longrightarrow> cls s = c"
  by (auto simp: Fn_init_def split: option.splits if_splits sum.splits)

lemma Fn_init_registered:
  "fst (Fn_init c l d t) = Inr s \<Longrightarrow> dtypes l (dtype s) = Some (vector_impl s)"
  by (auto simp: Fn_init_def split: option.splits if_splits sum.splits)

subsection \<open>Construction\<close>

text \<open>
  C2, as stated, fails on RL's space: \<open>CudaRN(0)\<close> checks nothing, calls the native
  constructor \<open>CudaRNImpl(0)\<close> and, when that returns, is a space.
\<close>

theorem CudaRN_init_counterexample:
  "CudaRN_init accepting (PyInt 0)
     = (Inr \<lparr>rl_n = PyInt 0, rl_impl = \<lparr>hclass = CudaRNImpl, hid = 0\<rparr>\<rparr>, [Call_CudaRNImpl (PyInt 0)])"
  by (simp add: CudaRN_init_def accepting_def)

text \<open>
  C2, amended. For the spaces of ODL: a dimension argument that is not a positive
  integer makes \<open>CudaFn(dim, dtype)\<close> and \<open>CudaRn(dim)\<close> raise TypeError, and so does a
  dtype outside the supported set, in both cases without a call into the extension; for
  a positive integer \<open>k\<close> and a supported dtype the construction succeeds, again without
  a native call, and the space has dimension \<open>k\<close>, that dtype and the implementation
  type registered for it. RL's \<open>CudaRN(n)\<close> validates nothing: it makes exactly one
  call, \<open>CudaRNImpl(n)\<close>, and succeeds or fails as that call does.
\<close>

theorem CudaFn_init_validation:
  "((integral_value d = None \<or> (\<exists>j<1. integral_value d = Some j)) \<longrightarrow>
      CudaFn_init l d t = (Inl TypeError, []) \<and> CudaRn_init l d = (Inl TypeError, []))
   \<and> ((\<forall>ty. np_dtype_of l t = Inr ty \<longrightarrow> ty \<notin> set spec_supported) \<longrightarrow>
      CudaFn_init l d t = (Inl TypeError, []))
   \<and> (1 \<le> k \<and> ty \<in> set spec_supported \<longrightarrow>
      (\<exists>s. CudaFn_init l (PyInt k) (DT ty) = (Inr s, [])
           \<and> cls s = CudaFn \<and> dim s = k \<and> dtype s = ty \<and> dtypes l ty = Some (vector_impl s)))
   \<and> (1 \<le> k \<longrightarrow>
      (\<exists>s. CudaRn_init l (PyInt k) = (Inr s, [])
           \<and> cls s = CudaRn \<and> dim s = k \<and> dtype s = np_float32))
   \<and> snd (CudaRN_init ext v) = [Call_CudaRNImpl v]
   \<and> (CudaRNImpl_new ext v = Inr i \<longrightarrow>
        fst (CudaRN_init ext v) = Inr \<lparr>rl_n = v, rl_impl = \<lparr>hclass = CudaRNImpl, hid = i\<rparr>\<rparr>)
   \<and> (CudaRNImpl_new ext v = Inl e \<longrightarrow> fst (CudaRN_init ext v) = Inl e)"
proof (intro conjI impI)
  assume a: "integral_value d = None \<or> (\<exists>j<1. integral_value d = Some j)"
  show "CudaFn_init l d t = (Inl TypeError, [])"
    unfolding CudaFn_init_def by (rule Fn_init_bad_dim[OF a])
  show "CudaRn_init l d = (Inl TypeError, [])"
    unfolding CudaRn_init_def by (rule Fn_init_bad_dim[OF a])
next
  assume "\<forall>ty. np_dtype_of l t = Inr ty \<longrightarrow> ty \<notin> set spec_supported"
  then show "CudaFn_init l d t = (Inl TypeError, [])"
    unfolding CudaFn_init_def by (rule Fn_init_bad_dtype)
next
  assume a: "1 \<le> k \<and> ty \<in> set spec_supported"
  with Fn_init_ok[of k ty l CudaFn]
  show "\<exists>s. CudaFn_init l (PyInt k) (DT ty) = (Inr s, [])
           \<and> cls s = CudaFn \<and> dim s = k \<and> dtype s = ty \<and> dtypes l ty = Some (vector_impl s)"
    unfolding CudaFn_init_def by auto
next
  assume a: "1 \<le> k"
  have "np_float32 \<in> set spec_supported" by (simp add: spec_supported_def)
  with a Fn_init_ok[of k np_float32 l CudaRn]
  show "\<exists>s. CudaRn_init l (PyInt k) = (Inr s, [])
           \<and> cls s = CudaRn \<and> dim s = k \<and> dtype s = np_float32"
    unfolding CudaRn_init_def by auto
next
  show "snd (CudaRN_init ext v) = [Call_CudaRNImpl v]"
    by (simp add: CudaRN_init_def split: sum.splits)
next
  assume "CudaRNImpl_new ext v = Inr i"
  then show "fst (CudaRN_init ext v) = Inr \<lparr>rl_n = v, rl_impl = \<lparr>hclass = CudaRNImpl, hid = i\<rparr>\<rparr>"
    by (simp add: CudaRN_init_def)
next
  assume "CudaRNImpl_new ext v = Inl e"
  then show "fst (CudaRN_init ext v) = Inl e"
    by (simp add: CudaRN_init_def)
qed

theorem CudaFn_init_validation_witness:
  "CudaFn_init Long64 (PyInt 0) (DT np_complex64) = (Inl TypeError, [])
   \<and> CudaFn_init Long64 (PyFloat 3) (DT np_float32) = (Inl TypeError, [])
   \<and> (\<exists>s. CudaFn_init Long64 (PyInt 3) (DT np_uint8) = (Inr s, []) \<and> dim s = 3 \<and> dtype s = np_uint8)
   \<and> fst (CudaRN_init accepting (PyInt 0))
       = Inr \<lparr>rl_n = PyInt 0, rl_impl = \<lparr>hclass = CudaRNImpl, hid = 0\<rparr>\<rparr>
   \<and> fst (CudaRN_init out_of_memory (PyInt 3)) = Inl (NativeError ''MemoryError'')"
  using CudaFn_init_validation
          [of "PyInt 0" Long64 "DT np_complex64" 3 np_uint8 accepting "PyInt 0" 0]
        CudaFn_init_validation
          [of "PyFloat 3" Long64 "DT np_float32" 3 np_uint8 out_of_memory "PyInt 3" 0
              "NativeError ''MemoryError''"]
  by (auto simp: spec_supported_def accepting_def out_of_memory_def)

subsection \<open>Equality\<close>

text \<open>
  C6, as stated, fails: \<open>CudaRn(3)\<close> and \<open>CudaFn(3, float32)\<close> have the same dimension
  and the same dtype, and \<open>equals\<close> is false of them, since their classes differ.
\<close>

theorem equals_class_counterexample:
  "CudaRn_init Long64 (PyInt 3)
     = (Inr \<lparr>cls = CudaRn, dim = 3, dtype = np_float32, vector_impl = CudaVectorFloat32\<rparr>, [])
   \<and> CudaFn_init Long64 (PyInt 3) (DT np_float32)
     = (Inr \<lparr>cls = CudaFn, dim = 3, dtype = np_float32, vector_impl = CudaVectorFloat32\<rparr>, [])
   \<and> \<not> equals \<lparr>cls = CudaRn, dim = 3, dtype = np_float32, vector_impl = CudaVectorFloat32\<rparr>
        (Odl_space \<lparr>cls = CudaFn, dim = 3, dtype = np_float32, vector_impl = CudaVectorFloat32\<rparr>)"
  by (simp add: CudaRn_init_def CudaFn_init_def Fn_init_def dtypes_def dict_of_def
                dtypes_items_def get_int_type_def np_float_def)

text \<open>
  C6, amended. Two spaces of ODL, each built by the constructor of its class, are equal
  if and only if they are of the same class and have the same dimension and the same
  dtype; \<open>==\<close> agrees with \<open>equals\<close> and \<open>!=\<close> is its negation. RL's space has no dtype:
  two of them are equal if and only if their \<open>n\<close> are. A space of one module equals
  neither a space of the other nor an object that is no space.
\<close>

theorem equals_iff:
  "(fst (Fn_init c1 l d1 t1) = Inr s1 \<and> fst (Fn_init c2 l d2 t2) = Inr s2 \<longrightarrow>
      (equals s1 (Odl_space s2) \<longleftrightarrow> c1 = c2 \<and> dim s1 = dim s2 \<and> dtype s1 = dtype s2)
      \<and> (space_eq s1 (Odl_space s2) \<longleftrightarrow> equals s1 (Odl_space s2))
      \<and> (space_ne s1 (Odl_space s2) \<longleftrightarrow> \<not> equals s1 (Odl_space s2)))
   \<and> (equals_RN r1 (Rl_space r2) \<longleftrightarrow> py_eq (rl_n r1) (rl_n r2))
   \<and> \<not> equals_RN r1 (Odl_space s3) \<and> \<not> equals_RN r1 (Other obj)
   \<and> \<not> equals s3 (Rl_space r1) \<and> \<not> equals s3 (Other obj)"
  using Fn_init_cls[of c1 l d1 t1 s1] Fn_init_cls[of c2 l d2 t2 s2]
  by (auto simp: space_eq_def space_ne_def)

theorem equals_iff_witness:
  "equals \<lparr>cls = CudaFn, dim = 3, dtype = np_float32, vector_impl = CudaVectorFloat32\<rparr>
     (Odl_space \<lparr>cls = CudaFn, dim = 3, dtype = np_float32, vector_impl = CudaVectorFloat32\<rparr>)
   \<and> \<not> equals \<lparr>cls = CudaFn, dim = 3, dtype = np_float32, vector_impl = CudaVectorFloat32\<rparr>
     (Odl_space \<lparr>cls = CudaFn, dim = 4, dtype = np_float32, vector_impl = CudaVectorFloat32\<rparr>)"
  using equals_iff [of CudaFn Long64 "PyInt 3" "DT np_float32"
                      "\<lparr>cls = CudaFn, dim = 3, dtype = np_float32, vector_impl = CudaVectorFloat32\<rparr>"
                      CudaFn "PyInt 3" "DT np_float32"
                      "\<lparr>cls = CudaFn, dim = 3, dtype = np_float32, vector_impl = CudaVectorFloat32\<rparr>"]
        equals_iff [of CudaFn Long64 "PyInt 3" "DT np_float32"
                      "\<lparr>cls = CudaFn, dim = 3, dtype = np_float32, vector_impl = CudaVectorFloat32\<rparr>"
                      CudaFn "PyInt 4" "DT np_float32"
                      "\<lparr>cls = CudaFn, dim = 4, dtype = np_float32, vector_impl = CudaVectorFloat32\<rparr>"]
  by (simp add: Fn_init_def dtypes_def dict_of_def dtypes_items_def get_int_type_def np_float_def)

section \<open>Vectors\<close>

lemma Vector_mismatch:
  "\<not> isinstance d (Cuda (vector_impl s)) \<Longrightarrow> Vector s d = Inl TypeError"
  by (simp add: Vector_def Vector_init_def)

lemma Vector_RN_ndarray_ok:
  assumes "impl_empty ext (rl_impl r) = Inr i"
    and "asarray np (NdArray a) np_float = Inr arr"
    and "setSlice ext \<lparr>hclass = CudaRNVectorImpl, hid = i\<rparr> slice_None arr = None"
  shows "Vector_RN_ndarray np ext r a
           = (Inr \<lparr>rspace = r, vimpl = \<lparr>hclass = CudaRNVectorImpl, hid = i\<rparr>\<rparr>,
              [Call_empty (rl_impl r),
               Call_setSlice \<lparr>hclass = CudaRNVectorImpl, hid = i\<rparr> slice_None arr])"
  using assms by (simp add: Vector_RN_ndarray_def)

lemma Vector_RN_list_ok:
  assumes "impl_empty ext (rl_impl r) = Inr i"
    and "asarray np (PyList a) np_float = Inr arr"
    and "setSlice ext \<lparr>hclass = CudaRNVectorImpl, hid = i\<rparr> slice_None arr = None"
  shows "Vector_RN_list np ext r a
           = (Inr \<lparr>rspace = r, vimpl = \<lparr>hclass = CudaRNVectorImpl, hid = i\<rparr>\<rparr>,
              [Call_empty (rl_impl r),
               Call_setSlice \<lparr>hclass = CudaRNVectorImpl, hid = i\<rparr> slice_None arr])"
  using assms by (simp add: Vector_RN_list_def)

lemma Vector_RN_conversion_fails:
  assumes "impl_empty ext (rl_impl r) = Inr i"
  shows "asarray np (NdArray a) np_float = Inl e \<Longrightarrow>
           Vector_RN_ndarray np ext r a = (Inl e, [Call_empty (rl_impl r)])"
    and "asarray np (PyList a) np_float = Inl e \<Longrightarrow>
           Vector_RN_list np ext r a = (Inl e, [Call_empty (rl_impl r)])"
  using assms by (simp_all add: Vector_RN_ndarray_def Vector_RN_list_def)

lemma Vector_RN_other:
  assumes "\<not> isinstance d CudaRNVectorImpl"
    and "\<forall>a. d \<noteq> NdArray a" and "\<forall>a. d \<noteq> PyList a"
  shows "Vector_RN np ext r (d # rest) = Vector_RN_native ext r (d # rest)"
  using assms by (cases d) auto

lemma element_empty_calls:
  "snd (element_empty ext s) = [Call_Vector (vector_impl s) (dim s)]"
  by (simp add: element_empty_def split: sum.splits)

lemma element_empty_ok:
  "Vector_new ext (vector_impl s) (dim s) = Inr i \<Longrightarrow>
     fst (element_empty ext s)
       = Inr \<lparr>vspace = s, data = Native \<lparr>hclass = Cuda (vector_impl s), hid = i\<rparr>\<rparr>"
  by (simp add: element_empty_def Vector_def Vector_init_def)

lemma element_empty_fail:
  "Vector_new ext (vector_impl s) (dim s) = Inl e \<Longrightarrow> fst (element_empty ext s) = Inl e"
  by (simp add: element_empty_def)

subsection \<open>The type of the handle\<close>

text \<open>
  C1, as stated, fails on RL's vector: a numpy array is not an object of the native
  vector class, and \<open>CudaRN.Vector(space, array)\<close> allocates a native vector, copies
  the array, converted to floats, into it and is a vector.
\<close>

theorem Vector_RN_counterexample:
  "\<not> isinstance (NdArray [PyFloat 1, PyFloat 2]) CudaRNVectorImpl
   \<and> Vector_RN float_numpy accepting
        \<lparr>rl_n = PyInt 2, rl_impl = \<lparr>hclass = CudaRNImpl, hid = 0\<rparr>\<rparr>
        [NdArray [PyFloat 1, PyFloat 2]]
       = (Inr \<lparr>rspace = \<lparr>rl_n = PyInt 2, rl_impl = \<lparr>hclass = CudaRNImpl, hid = 0\<rparr>\<rparr>,
               vimpl = \<lparr>hclass = CudaRNVectorImpl, hid = 0\<rparr>\<rparr>,
          [Call_empty \<lparr>hclass = CudaRNImpl, hid = 0\<rparr>,
           Call_setSlice \<lparr>hclass = CudaRNVectorImpl, hid = 0\<rparr> slice_None
             [Np_float 1, Np_float 2]])"
  by (simp add: Vector_RN_ndarray_def accepting_def float_numpy_def np_float_def)

text \<open>
  C1, amended. For a space of ODL, built by its constructor, the implementation type
  it holds is the one registered for its dtype, and constructing a vector from an
  object that is not an instance of that type raises TypeError: no vector is produced.
  RL's vector constructor rejects no object for its type. A numpy array or a list is
  converted to a float array and copied into a vector allocated by
  \<open>space.impl.empty()\<close>: when the allocation, the conversion and the copy all
  succeed the result is that vector and the native calls are \<open>empty\<close> and \<open>setSlice\<close>
  with the converted array, and when the conversion raises, its error is raised after
  the call of \<open>empty\<close> alone. Any other object that is not an instance of the native
  vector class, a native object of another class included, goes with the remaining
  arguments to the native vector constructor, in one native call: its error is
  raised, or its object is the handle of the vector.
\<close>

theorem Vector_type_check:
  "(fst (Fn_init c l dim_arg t) = Inr s \<and> \<not> isinstance d (Cuda (vector_impl s)) \<longrightarrow>
      dtypes l (dtype s) = Some (vector_impl s) \<and> Vector s d = Inl TypeError)
   \<and> (impl_empty ext (rl_impl r) = Inr i
       \<and> asarray np (NdArray a1) np_float = Inr arr1
       \<and> setSlice ext \<lparr>hclass = CudaRNVectorImpl, hid = i\<rparr> slice_None arr1 = None \<longrightarrow>
      Vector_RN np ext r (NdArray a1 # rest)
        = (Inr \<lparr>rspace = r, vimpl = \<lparr>hclass = CudaRNVectorImpl, hid = i\<rparr>\<rparr>,
           [Call_empty (rl_impl r),
            Call_setSlice \<lparr>hclass = CudaRNVectorImpl, hid = i\<rparr> slice_None arr1]))
   \<and> (impl_empty ext (rl_impl r) = Inr i
       \<and> asarray np (PyList a2) np_float = Inr arr2
       \<and> setSlice ext \<lparr>hclass = CudaRNVectorImpl, hid = i\<rparr> slice_None arr2 = None \<longrightarrow>
      Vector_RN np ext r (PyList a2 # rest)
        = (Inr \<lparr>rspace = r, vimpl = \<lparr>hclass = CudaRNVectorImpl, hid = i\<rparr>\<rparr>,
           [Call_empty (rl_impl r),
            Call_setSlice \<lparr>hclass = CudaRNVectorImpl, hid = i\<rparr> slice_None arr2]))
   \<and> (impl_empty ext (rl_impl r) = Inr i \<and> asarray np (NdArray a3) np_float = Inl e3 \<longrightarrow>
      Vector_RN np ext r (NdArray a3 # rest) = (Inl e3, [Call_empty (rl_impl r)]))
   \<and> (impl_empty ext (rl_impl r) = Inr i \<and> asarray np (PyList a4) np_float = Inl e4 \<longrightarrow>
      Vector_RN np ext r (PyList a4 # rest) = (Inl e4, [Call_empty (rl_impl r)]))
   \<and> (\<not> isinstance d5 CudaRNVectorImpl \<and> (\<forall>a. d5 \<noteq> NdArray a) \<and> (\<forall>a. d5 \<noteq> PyList a) \<longrightarrow>
      Vector_RN np ext r (d5 # rest)
        = (case CudaRNVectorImpl_new ext (d5 # rest) of
             Inl e \<Rightarrow> (Inl e, [Call_CudaRNVectorImpl (d5 # rest)])
           | Inr j \<Rightarrow>
               (Inr \<lparr>rspace = r, vimpl = \<lparr>hclass = CudaRNVectorImpl, hid = j\<rparr>\<rparr>,
                [Call_CudaRNVectorImpl (d5 # rest)])))"
proof (intro conjI impI)
  assume a: "fst (Fn_init c l dim_arg t) = Inr s \<and> \<not> isinstance d (Cuda (vector_impl s))"
  then show "dtypes l (dtype s) = Some (vector_impl s)"
    using Fn_init_registered by blast
  from a show "Vector s d = Inl TypeError"
    using Vector_mismatch by blast
next
  assume "impl_empty ext (rl_impl r) = Inr i
       \<and> asarray np (NdArray a1) np_float = Inr arr1
       \<and> setSlice ext \<lparr>hclass = CudaRNVectorImpl, hid = i\<rparr> slice_None arr1 = None"
  then show "Vector_RN np ext r (NdArray a1 # rest)
        = (Inr \<lparr>rspace = r, vimpl = \<lparr>hclass = CudaRNVectorImpl, hid = i\<rparr>\<rparr>,
           [Call_empty (rl_impl r),
            Call_setSlice \<lparr>hclass = CudaRNVectorImpl, hid = i\<rparr> slice_None arr1])"
    using Vector_RN_ndarray_ok[of ext r i np a1 arr1] by simp
next
  assume "impl_empty ext (rl_impl r) = Inr i
       \<and> asarray np (PyList a2) np_float = Inr arr2
       \<and> setSlice ext \<lparr>hclass = CudaRNVectorImpl, hid = i\<rparr> slice_None arr2 = None"
  then show "Vector_RN np ext r (PyList a2 # rest)
        = (Inr \<lparr>rspace = r, vimpl = \<lparr>hclass = CudaRNVectorImpl, hid = i\<rparr>\<rparr>,
           [Call_empty (rl_impl r),
            Call_setSlice \<lparr>hclass = CudaRNVectorImpl, hid = i\<rparr> slice_None arr2])"
    using Vector_RN_list_ok[of ext r i np a2 arr2] by simp
next
  assume "impl_empty ext (rl_impl r) = Inr i \<and> asarray np (NdArray a3) np_float = Inl e3"
  then show "Vector_RN np ext r (NdArray a3 # rest) = (Inl e3, [Call_empty (rl_impl r)])"
    using Vector_RN_conversion_fails(1)[of ext r i np a3 e3] by simp
next
  assume "impl_empty ext (rl_impl r) = Inr i \<and> asarray np (PyList a4) np_float = Inl e4"
  then show "Vector_RN np ext r (PyList a4 # rest) = (Inl e4, [Call_empty (rl_impl r)])"
    using Vector_RN_conversion_fails(2)[of ext r i np a4 e4] by simp
next
  assume "\<not> isinstance d5 CudaRNVectorImpl \<and> (\<forall>a. d5 \<noteq> NdArray a) \<and> (\<forall>a. d5 \<noteq> PyList a)"
  then have "Vector_RN np ext r (d5 # rest) = Vector_RN_native ext r (d5 # rest)"
    using Vector_RN_other by blast
  then show "Vector_RN np ext r (d5 # rest)
        = (case CudaRNVectorImpl_new ext (d5 # rest) of
             Inl e \<Rightarrow> (Inl e, [Call_CudaRNVectorImpl (d5 # rest)])
           | Inr j \<Rightarrow>
               (Inr \<lparr>rspace = r, vimpl = \<lparr>hclass = CudaRNVectorImpl, hid = j\<rparr>\<rparr>,
                [Call_CudaRNVectorImpl (d5 # rest)]))"
    by (simp add: Vector_RN_native_def split: sum.splits)
qed

theorem Vector_type_check_witness:
  "Vector \<lparr>cls = CudaFn, dim = 3, dtype = np_float32, vector_impl = CudaVectorFloat32\<rparr>
          (Native \<lparr>hclass = Cuda CudaVectorFloat64, hid = 7\<rparr>) = Inl TypeError
   \<and> Vector_RN float_numpy accepting
        \<lparr>rl_n = PyInt 2, rl_impl = \<lparr>hclass = CudaRNImpl, hid = 0\<rparr>\<rparr>
        [PyList [PyInt 1, PyInt 2]]
       = (Inr \<lparr>rspace = \<lparr>rl_n = PyInt 2, rl_impl = \<lparr>hclass = CudaRNImpl, hid = 0\<rparr>\<rparr>,
               vimpl = \<lparr>hclass = CudaRNVectorImpl, hid = 0\<rparr>\<rparr>,
          [Call_empty \<lparr>hclass = CudaRNImpl, hid = 0\<rparr>,
           Call_setSlice \<lparr>hclass = CudaRNVectorImpl, hid = 0\<rparr> slice_None
             [Np_float 1, Np_float 2]])
   \<and> Vector_RN float_numpy accepting
        \<lparr>rl_n = PyInt 2, rl_impl = \<lparr>hclass = CudaRNImpl, hid = 0\<rparr>\<rparr>
        [PyList [PyStr ''a'']]
       = (Inl ValueError, [Call_empty \<lparr>hclass = CudaRNImpl, hid = 0\<rparr>])
   \<and> Vector_RN float_numpy accepting
        \<lparr>rl_n = PyInt 2, rl_impl = \<lparr>hclass = CudaRNImpl, hid = 0\<rparr>\<rparr>
        [NdArray [PyStr ''a'']]
       = (Inl ValueError, [Call_empty \<lparr>hclass = CudaRNImpl, hid = 0\<rparr>])
   \<and> Vector_RN float_numpy accepting
        \<lparr>rl_n = PyInt 2, rl_impl = \<lparr>hclass = CudaRNImpl, hid = 0\<rparr>\<rparr>
        [Native \<lparr>hclass = Cuda CudaVectorFloat32, hid = 5\<rparr>]
       = (Inr \<lparr>rspace = \<lparr>rl_n = PyInt 2, rl_impl = \<lparr>hclass = CudaRNImpl, hid = 0\<rparr>\<rparr>,
               vimpl = \<lparr>hclass = CudaRNVectorImpl, hid = 0\<rparr>\<rparr>,
          [Call_CudaRNVectorImpl [Native \<lparr>hclass = Cuda CudaVectorFloat32, hid = 5\<rparr>]])"
  using Vector_type_check
          [where c = CudaFn and l = Long64 and dim_arg = "PyInt 3" and t = "DT np_float32"
             and s = "\<lparr>cls = CudaFn, dim = 3, dtype = np_float32, vector_impl = CudaVectorFloat32\<rparr>"
             and d = "Native \<lparr>hclass = Cuda CudaVectorFloat64, hid = 7\<rparr>"
             and ext = accepting and np = float_numpy
             and r = "\<lparr>rl_n = PyInt 2, rl_impl = \<lparr>hclass = CudaRNImpl, hid = 0\<rparr>\<rparr>"
             and i = 0 and rest = "[]"
             and ?a1.0 = "[PyFloat 1, PyFloat 2]" and ?arr1.0 = "[Np_float 1, Np_float 2]"
             and ?a2.0 = "[PyInt 1, PyInt 2]" and ?arr2.0 = "[Np_float 1, Np_float 2]"
             and ?a3.0 = "[PyStr ''a'']" and ?e3.0 = ValueError
             and ?a4.0 = "[PyStr ''a'']" and ?e4.0 = ValueError
             and ?d5.0 = "Native \<lparr>hclass = Cuda CudaVectorFloat32, hid = 5\<rparr>"]
  by (simp add: Fn_init_def dtypes_def dict_of_def dtypes_items_def get_int_type_def np_float_def
                accepting_def float_numpy_def)

subsection \<open>\<open>element\<close>\<close>

text \<open>
  C10. With both \<open>inp\<close> and \<open>data_ptr\<close> given, \<open>element\<close> raises TypeError and makes
  no native call, so no vector is constructed. With neither, it makes one native call,
  the constructor of the space's implementation type with the dimension alone (no fill
  value); when that returns, the result is a vector of this space, of length
  \<open>dim\<close>, holding the new handle, and when it raises, its error is passed on.
\<close>

theorem element_both_or_neither:
  "(inp \<noteq> Val PyNone \<and> data_ptr \<noteq> Val PyNone \<longrightarrow>
      element np ext s inp data_ptr = (Inl TypeError, []))
   \<and> snd (element np ext s (Val PyNone) (Val PyNone)) = [Call_Vector (vector_impl s) (dim s)]
   \<and> (Vector_new ext (vector_impl s) (dim s) = Inr i \<longrightarrow>
       (\<exists>v. fst (element np ext s (Val PyNone) (Val PyNone)) = Inr v
             \<and> vspace v = s \<and> len_vector v = dim s
             \<and> data v = Native \<lparr>hclass = Cuda (vector_impl s), hid = i\<rparr>))
   \<and> (Vector_new ext (vector_impl s) (dim s) = Inl e \<longrightarrow>
       fst (element np ext s (Val PyNone) (Val PyNone)) = Inl e)"
  using element_empty_calls[of ext s] element_empty_ok[of ext s i] element_empty_fail[of ext s e]
  by (auto simp: element_def len_vector_def)

theorem element_both_or_neither_witness:
  "element float_numpy accepting \<lparr>cls = CudaFn, dim = 3, dtype = np_float32, vector_impl = CudaVectorFloat32\<rparr>
      (PyList [PyInt 1, PyInt 2, PyInt 3]) (Val (PyInt 140737)) = (Inl TypeError, [])
   \<and> (\<exists>v. fst (element float_numpy accepting
                 \<lparr>cls = CudaFn, dim = 3, dtype = np_float32, vector_impl = CudaVectorFloat32\<rparr>
                 (Val PyNone) (Val PyNone)) = Inr v
           \<and> len_vector v = 3)
   \<and> fst (element float_numpy out_of_memory
             \<lparr>cls = CudaFn, dim = 3, dtype = np_float32, vector_impl = CudaVectorFloat32\<rparr>
             (Val PyNone) (Val PyNone)) = Inl (NativeError ''MemoryError'')"
  using element_both_or_neither
          [of "PyList [PyInt 1, PyInt 2, PyInt 3]" "Val (PyInt 140737)" float_numpy accepting
              "\<lparr>cls = CudaFn, dim = 3, dtype = np_float32, vector_impl = CudaVectorFloat32\<rparr>" 0]
        element_both_or_neither
          [of "PyList [PyInt 1, PyInt 2, PyInt 3]" "Val (PyInt 140737)" float_numpy out_of_memory
              "\<lparr>cls = CudaFn, dim = 3, dtype = np_float32, vector_impl = CudaVectorFloat32\<rparr>" 0
              "NativeError ''MemoryError''"]
  by (auto simp: accepting_def out_of_memory_def)

section \<open>The reduction \<open>sum\<close>\<close>

text \<open>
  C4. The module-level \<open>sum\<close> of ODL calls the extension's \<open>sum\<close> on the vector's
  handle and returns its result. The function behind RL's \<open>CudaRN.sum\<close> does not: it
  calls the extension's \<open>abs\<close> on the handle and returns that; the \<open>sum\<close> entry
  point is never called.
\<close>

theorem sum_RN_calls_abs:
  "sum_RN ext inp outp = (PyCuda_abs ext [vimpl inp], [Call_PyCuda_abs [vimpl inp]])
   \<and> Call_PyCuda_sum [vimpl inp] \<notin> set (snd (sum_RN ext inp outp))
   \<and> sum_cuda ext v = (cuda_sum ext (data v), [Call_cuda_sum (data v)])"
  by (simp add: sum_RN_def sum_cuda_def)

end
